theory Spec2Isabelle
  imports Complex_Main
begin

section \<open>Python values, errors and tensors\<close>

text \<open>
  The source is \<^verbatim>\<open>src/image_diffit.py\<close>. Every exception the Python can raise is a
  value of \<open>error\<close>; a call returns \<open>error + 'a\<close>, with \<open>Inl\<close> for the
  exception. An \<^verbatim>\<open>assert\<close> that fails raises \<open>AssertionError\<close> (the
  spec's ConfigurationError and ShapeMismatchError are names for the exceptions below).
\<close>

datatype error =
  TypeError | AttributeError | AssertionError | ZeroDivisionError | RuntimeError | ValueError

definition bindE :: "error + 'a \<Rightarrow> ('a \<Rightarrow> error + 'b) \<Rightarrow> error + 'b" where
  "bindE m f = (case m of Inl e \<Rightarrow> Inl e | Inr v \<Rightarrow> f v)"

text \<open>
  A constructor argument is an integer or a module instance (tagged with its class
  name). Python's \<^verbatim>\<open>%\<close> on integers is floor-mod and raises on a zero divisor;
  a module supports no arithmetic.
\<close>

datatype pyval = PInt int | PModule string

fun py_mod :: "pyval \<Rightarrow> pyval \<Rightarrow> error + int" where
  "py_mod (PInt a) (PInt b) = (if b = 0 then Inl ZeroDivisionError else Inr (a mod b))"
| "py_mod _ _ = Inl TypeError"

definition py_assert :: "bool \<Rightarrow> error + unit" where
  "py_assert b = (if b then Inr () else Inl AssertionError)"

text \<open>
  Binding the arguments of a call to the parameters of a \<^verbatim>\<open>def\<close>: each
  parameter is a name with an optional default; \<open>args\<close> are the positional arguments
  and \<open>kwargs\<close> the items of the keyword dictionary (its keys are distinct). Too many
  positional arguments, an unknown keyword, a parameter given twice and a parameter
  without value are TypeErrors.
\<close>

fun bind_rest :: "(string \<times> pyval option) list \<Rightarrow> (string \<times> pyval) list \<Rightarrow> error + pyval list" where
  "bind_rest [] kw = Inr []"
| "bind_rest ((k, d) # ps) kw =
     (case map_of kw k of
        Some v \<Rightarrow> bindE (bind_rest ps kw) (\<lambda>vs. Inr (v # vs))
      | None \<Rightarrow>
          (case d of
             Some v \<Rightarrow> bindE (bind_rest ps kw) (\<lambda>vs. Inr (v # vs))
           | None \<Rightarrow> Inl TypeError))"

fun bind_pos :: "(string \<times> pyval option) list \<Rightarrow> pyval list \<Rightarrow> (string \<times> pyval) list \<Rightarrow> error + pyval list" where
  "bind_pos ps [] kw = bind_rest ps kw"
| "bind_pos [] (a # as) kw = Inl TypeError"
| "bind_pos ((k, d) # ps) (a # as) kw =
     (if map_of kw k \<noteq> None then Inl TypeError
      else bindE (bind_pos ps as kw) (\<lambda>vs. Inr (a # vs)))"

definition bind_call :: "(string \<times> pyval option) list \<Rightarrow> pyval list \<Rightarrow> (string \<times> pyval) list \<Rightarrow> error + pyval list" where
  "bind_call ps args kw =
     (if list_ex (\<lambda>kv. fst kv \<notin> set (map fst ps)) kw then Inl TypeError
      else bind_pos ps args kw)"

text \<open>
  Tensors by rank, as the docstrings type them: a feature map (batch, channels, height,
  width), a token sequence (batch, patches, width), a matrix (batch, hidden size) and a
  vector (batch). A tensor is its extents and its entries by index; entries are read
  inside the extents only.
\<close>

record 'a fmap =
  fB :: nat
  fC :: nat
  fH :: nat
  fW :: nat
  fval :: "nat \<Rightarrow> nat \<Rightarrow> nat \<Rightarrow> nat \<Rightarrow> 'a"

record 'a tokens =
  tB :: nat
  tT :: nat
  tD :: nat
  tval :: "nat \<Rightarrow> nat \<Rightarrow> nat \<Rightarrow> 'a"

record 'a mat =
  mB :: nat
  mD :: nat
  mval :: "nat \<Rightarrow> nat \<Rightarrow> 'a"

record 'a vec =
  vN :: nat
  vval :: "nat \<Rightarrow> 'a"

definition fshape :: "'a fmap \<Rightarrow> nat \<times> nat \<times> nat \<times> nat" where
  "fshape x = (fB x, fC x, fH x, fW x)"

definition tshape :: "'a tokens \<Rightarrow> nat \<times> nat \<times> nat" where
  "tshape x = (tB x, tT x, tD x)"

text \<open>
  Broadcasting of \<^verbatim>\<open>a + b\<close>: two extents agree when they are equal or one of
  them is 1, and an axis of extent 1 is read at index 0.
\<close>

definition bdim :: "nat \<Rightarrow> nat \<Rightarrow> nat option" where
  "bdim a b = (if a = b then Some a else if a = 1 then Some b else if b = 1 then Some a else None)"

definition bidx :: "nat \<Rightarrow> nat \<Rightarrow> nat" where
  "bidx d i = (if d = 1 then 0 else i)"

definition add_fmap :: "'a::comm_ring_1 fmap \<Rightarrow> 'a fmap \<Rightarrow> error + 'a fmap" where
  "add_fmap x y =
     (case (bdim (fB x) (fB y), bdim (fC x) (fC y), bdim (fH x) (fH y), bdim (fW x) (fW y)) of
        (Some b, Some c, Some h, Some w) \<Rightarrow>
          Inr \<lparr>fB = b, fC = c, fH = h, fW = w,
               fval = (\<lambda>n k i j.
                 fval x (bidx (fB x) n) (bidx (fC x) k) (bidx (fH x) i) (bidx (fW x) j)
               + fval y (bidx (fB y) n) (bidx (fC y) k) (bidx (fH y) i) (bidx (fW y) j))\<rparr>
      | _ \<Rightarrow> Inl RuntimeError)"

definition add_tokens :: "'a::comm_ring_1 tokens \<Rightarrow> 'a tokens \<Rightarrow> error + 'a tokens" where
  "add_tokens x y =
     (case (bdim (tB x) (tB y), bdim (tT x) (tT y), bdim (tD x) (tD y)) of
        (Some b, Some t, Some d) \<Rightarrow>
          Inr \<lparr>tB = b, tT = t, tD = d,
               tval = (\<lambda>n k i.
                 tval x (bidx (tB x) n) (bidx (tT x) k) (bidx (tD x) i)
               + tval y (bidx (tB y) n) (bidx (tT y) k) (bidx (tD y) i))\<rparr>
      | _ \<Rightarrow> Inl RuntimeError)"

definition add_mat :: "'a::comm_ring_1 mat \<Rightarrow> 'a mat \<Rightarrow> error + 'a mat" where
  "add_mat x y =
     (case (bdim (mB x) (mB y), bdim (mD x) (mD y)) of
        (Some b, Some d) \<Rightarrow>
          Inr \<lparr>mB = b, mD = d,
               mval = (\<lambda>n i. mval x (bidx (mB x) n) (bidx (mD x) i)
                            + mval y (bidx (mB y) n) (bidx (mD y) i))\<rparr>
      | _ \<Rightarrow> Inl RuntimeError)"


section \<open>The layers of the libraries and the absent modules\<close>

text \<open>
  A module holds fixed weights, so its forward pass is a function of its input; a layer
  maps a feature map to a feature map or raises. The convolutions, group normalisation,
  the activation and \<^verbatim>\<open>PatchEmbed\<close> are library classes;
  \<^verbatim>\<open>DiffTBlock\<close>, \<^verbatim>\<open>FinalLayer\<close>, \<^verbatim>\<open>TimestepEmbedder\<close>,
  \<^verbatim>\<open>LabelEmbedder\<close> and \<^verbatim>\<open>get_2d_sincos_pos_embed\<close> are imported from
  modules that are not part of the source file. All of them are parameters: \<open>lib\<close>
  holds their constructors, each returning the constructed module or raising. The
  random initialisation of weights is part of what a constructor returns.
  The label embedder reads the global random generator (\<open>'r\<close>) when it drops labels.
  Of a \<^verbatim>\<open>PatchEmbed\<close> the source reads \<^verbatim>\<open>patch_size[0]\<close> and
  \<^verbatim>\<open>num_patches\<close>, natural numbers in every instance the library constructs.
\<close>

type_synonym 'a layer = "'a fmap \<Rightarrow> error + 'a fmap"

record 'a PatchEmbed =
  pe_patch_size0 :: nat
  pe_num_patches :: nat
  pe_forward :: "'a fmap \<Rightarrow> error + 'a tokens"

record ('a, 'r) lib =
  nn_GroupNorm :: "pyval \<Rightarrow> pyval \<Rightarrow> error + 'a layer"
  nn_SiLU :: "'a \<Rightarrow> 'a"
  nn_Conv2d :: "pyval \<Rightarrow> pyval \<Rightarrow> int \<Rightarrow> int \<Rightarrow> int \<Rightarrow> error + 'a layer"
  nn_ConvTranspose2d :: "pyval \<Rightarrow> pyval \<Rightarrow> int \<Rightarrow> int \<Rightarrow> int \<Rightarrow> error + 'a layer"
  new_PatchEmbed :: "pyval \<Rightarrow> pyval \<Rightarrow> pyval \<Rightarrow> pyval \<Rightarrow> error + 'a PatchEmbed"
  new_DiffTBlock :: "pyval \<Rightarrow> pyval \<Rightarrow> error + ('a tokens \<Rightarrow> 'a mat \<Rightarrow> error + 'a tokens)"
  new_FinalLayer :: "pyval \<Rightarrow> pyval \<Rightarrow> pyval \<Rightarrow> error + ('a tokens \<Rightarrow> error + 'a tokens)"
  get_2d_sincos_pos_embed :: "int \<Rightarrow> nat \<Rightarrow> error + 'a mat"
  new_TimestepEmbedder :: "pyval \<Rightarrow> error + ('a vec \<Rightarrow> error + 'a mat)"
  new_LabelEmbedder :: "pyval \<Rightarrow> pyval \<Rightarrow> real \<Rightarrow> error + ('r \<Rightarrow> int vec \<Rightarrow> error + 'a mat)"

section \<open>Tokenizer and Head\<close>

record 'a Tokenizer =
  tk_conv2d :: "'a layer"

definition Tokenizer_init :: "('a, 'r) lib \<Rightarrow> pyval \<Rightarrow> pyval \<Rightarrow> error + 'a Tokenizer" where
  "Tokenizer_init L in_channels out_channels =
     bindE (nn_Conv2d L in_channels out_channels 3 1 1) (\<lambda>cv. Inr \<lparr>tk_conv2d = cv\<rparr>)"

definition Tokenizer_forward :: "'a Tokenizer \<Rightarrow> 'a fmap \<Rightarrow> error + 'a fmap" where
  "Tokenizer_forward tk x = tk_conv2d tk x"

record 'a Head =
  hd_groupNorm :: "'a layer"
  hd_conv2d :: "'a layer"

definition Head_init :: "('a, 'r) lib \<Rightarrow> pyval \<Rightarrow> pyval \<Rightarrow> pyval \<Rightarrow> error + 'a Head" where
  "Head_init L in_channels out_channels num_groups =
     bindE (py_mod in_channels num_groups) (\<lambda>r.
     bindE (py_assert (r = 0)) (\<lambda>_.
     bindE (nn_GroupNorm L num_groups in_channels) (\<lambda>gn.
     bindE (nn_Conv2d L in_channels out_channels 3 1 1) (\<lambda>cv.
     Inr \<lparr>hd_groupNorm = gn, hd_conv2d = cv\<rparr>))))"

text \<open>\<^verbatim>\<open>Head()\<close>: the defaults of the signature (line 49).\<close>

definition Head_default :: "('a, 'r) lib \<Rightarrow> error + 'a Head" where
  "Head_default L = Head_init L (PInt 128) (PInt 3) (PInt 8)"

definition Head_forward :: "'a Head \<Rightarrow> 'a fmap \<Rightarrow> error + 'a fmap" where
  "Head_forward h x = bindE (hd_groupNorm h x) (\<lambda>x1. hd_conv2d h x1)"

section \<open>DiffiTResBlock\<close>

record 'a DiffiTResBlock =
  b_channels :: pyval
  b_groupNorm :: "'a layer"
  b_swish :: "'a \<Rightarrow> 'a"
  b_conv2d :: "'a layer"
  b_diffit :: "'a tokens \<Rightarrow> 'a mat \<Rightarrow> error + 'a tokens"
  b_x_embedder :: "'a PatchEmbed"
  b_patch_size :: pyval
  b_num_patches :: nat
  b_pos_embed :: "'a tokens"
  b_final :: "'a tokens \<Rightarrow> error + 'a tokens"

text \<open>
  \<^verbatim>\<open>int(n ** 0.5)\<close> on a patch count: the integer square root (the float square
  root of an integer below \<open>2^52\<close> truncates to it).
\<close>

primrec isqrt_upto :: "nat \<Rightarrow> nat \<Rightarrow> nat" where
  "isqrt_upto n 0 = 0"
| "isqrt_upto n (Suc k) = (if Suc k * Suc k \<le> n then Suc k else isqrt_upto n k)"

definition isqrt :: "nat \<Rightarrow> nat" where
  "isqrt n = isqrt_upto n n"

definition block_params :: "(string \<times> pyval option) list" where
  "block_params =
     [(''img_size'', None), (''num_heads'', Some (PInt 16)), (''patch_size'', Some (PInt 2)),
      (''hidden_size'', Some (PInt 1152)), (''channels'', Some (PInt 128)),
      (''num_groups'', Some (PInt 8))]"

text \<open>
  \<^verbatim>\<open>torch.zeros(1, num_patches, hidden_size)\<close> (line 102) needs a
  non-negative integer width. In \<^verbatim>\<open>initialize_weights\<close> (lines 117-118) the
  sin-cos table for the grid side \<^verbatim>\<open>int(num_patches ** 0.5)\<close> gets a leading axis
  of extent 1 and is copied into the parameter, to whose shape it must broadcast.
\<close>

definition zeros_pos_embed :: "nat \<Rightarrow> pyval \<Rightarrow> error + 'a::comm_ring_1 tokens" where
  "zeros_pos_embed num_patches hidden_size =
     (case hidden_size of
        PModule _ \<Rightarrow> Inl TypeError
      | PInt hs \<Rightarrow>
          if hs < 0 then Inl RuntimeError
          else Inr \<lparr>tB = 1, tT = num_patches, tD = nat hs, tval = (\<lambda>n t d. 0)\<rparr>)"

definition copy_pos_embed :: "('a, 'r) lib \<Rightarrow> 'a tokens \<Rightarrow> 'a PatchEmbed \<Rightarrow> error + 'a tokens" where
  "copy_pos_embed L pos x_embedder =
     bindE (get_2d_sincos_pos_embed L (int (tD pos)) (isqrt (pe_num_patches x_embedder))) (\<lambda>pe.
     if (mB pe = tT pos \<or> mB pe = 1) \<and> (mD pe = tD pos \<or> mD pe = 1)
     then Inr (pos\<lparr>tval := (\<lambda>n t d. mval pe (bidx (mB pe) t) (bidx (mD pe) d))\<rparr>)
     else Inl RuntimeError)"

definition DiffiTResBlock_init ::
  "('a::comm_ring_1, 'r) lib \<Rightarrow> pyval list \<Rightarrow> (string \<times> pyval) list \<Rightarrow> error + 'a DiffiTResBlock" where
  "DiffiTResBlock_init L args kwargs =
     bindE (bind_call block_params args kwargs) (\<lambda>vs.
       case vs of
         [img_size, num_heads, patch_size, hidden_size, channels, num_groups] \<Rightarrow>
           bindE (py_mod hidden_size num_heads) (\<lambda>r1.
           bindE (py_assert (r1 = 0)) (\<lambda>_.
           bindE (py_mod channels num_groups) (\<lambda>r2.
           bindE (py_assert (r2 = 0)) (\<lambda>_.
           bindE (nn_GroupNorm L num_groups channels) (\<lambda>gn.
           bindE (nn_Conv2d L channels channels 3 1 1) (\<lambda>cv.
           bindE (new_DiffTBlock L hidden_size num_heads) (\<lambda>dt.
           bindE (new_PatchEmbed L img_size patch_size channels hidden_size) (\<lambda>pe.
           bindE (zeros_pos_embed (pe_num_patches pe) hidden_size) (\<lambda>pos0.
           bindE (new_FinalLayer L hidden_size patch_size channels) (\<lambda>fl.
           bindE (copy_pos_embed L pos0 pe) (\<lambda>pos.
           Inr \<lparr>b_channels = channels, b_groupNorm = gn, b_swish = nn_SiLU L,
                b_conv2d = cv, b_diffit = dt, b_x_embedder = pe, b_patch_size = patch_size,
                b_num_patches = pe_num_patches pe, b_pos_embed = pos, b_final = fl\<rparr>)))))))))))
       | _ \<Rightarrow> Inl TypeError)"

text \<open>
  \<^verbatim>\<open>unpatchify\<close>: the token tensor (N, T, D) is reshaped to (N, h, w, p, p, c),
  permuted by \<^verbatim>\<open>nhwpqc->nchpwq\<close> and reshaped to (N, c, h*p, h*p). A reshape
  raises unless the number of entries is kept. Entry (n, k, i, j) of the image is entry
  \<open>((i mod p) * p + j mod p) * c + k\<close> of the token of patch
  \<open>(i div p) * w + j div p\<close>. A negative channel count cannot be constructed
  (the group normalisation rejects it) and is taken to raise here.
\<close>

definition unpatchify :: "'a DiffiTResBlock \<Rightarrow> 'a tokens \<Rightarrow> error + 'a fmap" where
  "unpatchify b x =
     (let p = pe_patch_size0 (b_x_embedder b);
          h = isqrt (tT x);
          w = h
      in bindE (py_assert (h * w = tT x)) (\<lambda>_.
         case b_channels b of
           PModule _ \<Rightarrow> Inl TypeError
         | PInt c \<Rightarrow>
             if c < 0 \<or> tB x * tT x * tD x \<noteq> tB x * h * w * p * p * nat c then Inl RuntimeError
             else Inr \<lparr>fB = tB x, fC = nat c, fH = h * p, fW = h * p,
                       fval = (\<lambda>n k i j.
                         tval x n ((i div p) * w + j div p)
                                  (((i mod p) * p + j mod p) * nat c + k))\<rparr>))"

definition map_fmap :: "('a \<Rightarrow> 'a) \<Rightarrow> 'a fmap \<Rightarrow> 'a fmap" where
  "map_fmap f x = x\<lparr>fval := (\<lambda>n k i j. f (fval x n k i j))\<rparr>"

definition DiffiTResBlock_forward ::
  "'a::comm_ring_1 DiffiTResBlock \<Rightarrow> 'a fmap \<Rightarrow> 'a mat \<Rightarrow> error + 'a fmap" where
  "DiffiTResBlock_forward b x c =
     bindE (b_groupNorm b x) (\<lambda>g.
     bindE (b_conv2d b (map_fmap (b_swish b) g)) (\<lambda>x'.
     bindE (pe_forward (b_x_embedder b) x') (\<lambda>e.
     bindE (add_tokens e (b_pos_embed b)) (\<lambda>x_patched.
     bindE (b_diffit b x_patched c) (\<lambda>m.
     bindE (b_final b m) (\<lambda>f.
     bindE (unpatchify b f) (\<lambda>u.
     add_fmap u x')))))))"

section \<open>DiffiTSequential\<close>

text \<open>
  The attribute of a U-Net level is called with a feature map and the conditioning
  vector; it holds a block or a stack of blocks.
\<close>

datatype 'a xc_module =
  ResBlock "'a DiffiTResBlock"
| Sequential "'a DiffiTResBlock list"

definition DiffiTSequential_init :: "'a DiffiTResBlock list \<Rightarrow> 'a xc_module" where
  "DiffiTSequential_init blocks = Sequential blocks"

primrec repeatE :: "nat \<Rightarrow> error + 'b \<Rightarrow> error + 'b list" where
  "repeatE 0 m = Inr []"
| "repeatE (Suc k) m = bindE m (\<lambda>b. bindE (repeatE k m) (\<lambda>bs. Inr (b # bs)))"

text \<open>
  \<^verbatim>\<open>all_equals\<close> (line 177) builds the \<open>n\<close> blocks of the comprehension
  from the keyword arguments and passes them, as positional arguments, to the
  constructor of \<^verbatim>\<open>DiffiTResBlock\<close>.
\<close>

definition all_equals :: "('a::comm_ring_1, 'r) lib \<Rightarrow> int \<Rightarrow> (string \<times> pyval) list \<Rightarrow> error + 'a xc_module" where
  "all_equals L n kwargs =
     bindE (repeatE (nat n) (DiffiTResBlock_init L [] kwargs)) (\<lambda>bs.
     bindE (DiffiTResBlock_init L (map (\<lambda>b. PModule ''DiffiTResBlock'') bs) []) (\<lambda>b.
     Inr (ResBlock b)))"

fun DiffiTSequential_forward ::
  "'a::comm_ring_1 DiffiTResBlock list \<Rightarrow> 'a fmap \<Rightarrow> 'a mat \<Rightarrow> error + 'a fmap" where
  "DiffiTSequential_forward [] x c = Inr x"
| "DiffiTSequential_forward (block # blocks) x c =
     bindE (DiffiTResBlock_forward block x c) (\<lambda>x1. DiffiTSequential_forward blocks x1 c)"

fun call_xc :: "'a::comm_ring_1 xc_module \<Rightarrow> 'a fmap \<Rightarrow> 'a mat \<Rightarrow> error + 'a fmap" where
  "call_xc (ResBlock b) x c = DiffiTResBlock_forward b x c"
| "call_xc (Sequential bs) x c = DiffiTSequential_forward bs x c"

section \<open>ImageDiffiT\<close>

text \<open>
  The arguments of \<^verbatim>\<open>ImageDiffiT.__init__\<close> (line 200), integers but for the
  dropout probability; \<open>default_config\<close> gives the defaults of the signature.
\<close>

record config =
  img_size :: int
  l1 :: int
  l2 :: int
  l3 :: int
  l4 :: int
  patch_size :: int
  cfg_num_classes :: int
  class_dropout_prob :: real
  hidden_size :: int
  channels :: int
  hidden_channels :: int
  num_heads :: int
  num_groups :: int

definition default_config :: "int \<Rightarrow> config" where
  "default_config s =
     \<lparr>img_size = s, l1 = 4, l2 = 4, l3 = 4, l4 = 4, patch_size = 2, cfg_num_classes = 1000,
      class_dropout_prob = 1 / 10, hidden_size = 1152, channels = 3, hidden_channels = 128,
      num_heads = 16, num_groups = 8\<rparr>"

text \<open>
  The object: one field for every attribute the class assigns or reads; \<open>None\<close> is
  an attribute that was never assigned, and reading it raises AttributeError.
\<close>

record ('a, 'r) ImageDiffiT =
  num_classes :: "int option"
  tokenizer :: "'a Tokenizer option"
  t_embedder :: "('a vec \<Rightarrow> error + 'a mat) option"
  y_embedder :: "('r \<Rightarrow> int vec \<Rightarrow> error + 'a mat) option"
  resBlock1 :: "'a xc_module option"
  downsample_1 :: "'a layer option"
  resBlock2 :: "'a xc_module option"
  downsample_2 :: "'a layer option"
  resBlock3 :: "'a xc_module option"
  downsample_3 :: "'a layer option"
  resBlock4 :: "'a xc_module option"
  upsample_1 :: "'a layer option"
  resBlock3up :: "'a xc_module option"
  upsample_2 :: "'a layer option"
  resBlock2up :: "'a xc_module option"
  upsample_3 :: "'a layer option"
  resBlock1Up :: "'a xc_module option"
  head :: "'a Head option"

definition new_module :: "('a, 'r) ImageDiffiT" where
  "new_module =
     \<lparr>num_classes = None, tokenizer = None, t_embedder = None, y_embedder = None,
      resBlock1 = None, downsample_1 = None, resBlock2 = None, downsample_2 = None,
      resBlock3 = None, downsample_3 = None, resBlock4 = None, upsample_1 = None,
      resBlock3up = None, upsample_2 = None, resBlock2up = None, upsample_3 = None,
      resBlock1Up = None, head = None\<rparr>"

definition getattr :: "'b option \<Rightarrow> error + 'b" where
  "getattr a = (case a of None \<Rightarrow> Inl AttributeError | Some v \<Rightarrow> Inr v)"

definition get_block_params :: "config \<Rightarrow> int \<Rightarrow> int \<Rightarrow> (string \<times> pyval) list" where
  "get_block_params cfg block_groups block_img_size =
     [(''num_heads'', PInt (num_heads cfg)), (''patch_size'', PInt (patch_size cfg)),
      (''img_size'', PInt block_img_size), (''hidden_size'', PInt (hidden_size cfg)),
      (''channels'', PInt (hidden_channels cfg)), (''num_groups'', PInt block_groups)]"

text \<open>
  \<^verbatim>\<open>__init__\<close> (lines 217-248), one attribute assignment after the other. The
  last statement, \<^verbatim>\<open>initialize_weights\<close>, redraws weights of modules that are
  already constructed and assigns no attribute; it is part of what the constructors of
  \<open>lib\<close> return.
\<close>

definition ImageDiffiT_init ::
  "('a::comm_ring_1, 'r) lib \<Rightarrow> config \<Rightarrow> error + ('a, 'r) ImageDiffiT" where
  "ImageDiffiT_init L cfg =
     (let hc = PInt (hidden_channels cfg); self = new_module in
      bindE (py_mod (PInt (hidden_size cfg)) (PInt (num_heads cfg))) (\<lambda>r1.
      bindE (py_assert (r1 = 0)) (\<lambda>_.
      bindE (py_mod hc (PInt (num_groups cfg))) (\<lambda>r2.
      bindE (py_assert (r2 = 0)) (\<lambda>_.
      let self = self\<lparr>num_classes := Some (cfg_num_classes cfg)\<rparr> in
      bindE (Tokenizer_init L (PInt (channels cfg)) hc) (\<lambda>v.
      let self = self\<lparr>tokenizer := Some v\<rparr> in
      bindE (new_TimestepEmbedder L (PInt (hidden_size cfg))) (\<lambda>v.
      let self = self\<lparr>t_embedder := Some v\<rparr> in
      bindE (new_LabelEmbedder L (PInt (cfg_num_classes cfg)) (PInt (hidden_size cfg))
               (class_dropout_prob cfg)) (\<lambda>v.
      let self = self\<lparr>y_embedder := Some v\<rparr> in
      bindE (all_equals L (l1 cfg) (get_block_params cfg 1 (img_size cfg))) (\<lambda>v.
      let self = self\<lparr>resBlock1 := Some v\<rparr> in
      bindE (nn_Conv2d L hc hc 3 2 1) (\<lambda>v.
      let self = self\<lparr>downsample_1 := Some v\<rparr> in
      bindE (all_equals L (l2 cfg) (get_block_params cfg (num_groups cfg) (img_size cfg div 2))) (\<lambda>v.
      let self = self\<lparr>resBlock2 := Some v\<rparr> in
      bindE (nn_Conv2d L hc hc 3 2 1) (\<lambda>v.
      let self = self\<lparr>downsample_2 := Some v\<rparr> in
      bindE (all_equals L (l3 cfg) (get_block_params cfg (num_groups cfg) (img_size cfg div 4))) (\<lambda>v.
      let self = self\<lparr>resBlock2 := Some v\<rparr> in
      bindE (nn_Conv2d L hc hc 3 2 1) (\<lambda>v.
      let self = self\<lparr>downsample_3 := Some v\<rparr> in
      bindE (all_equals L (l4 cfg) (get_block_params cfg (num_groups cfg) (img_size cfg div 8))) (\<lambda>v.
      let self = self\<lparr>resBlock2 := Some v\<rparr> in
      bindE (nn_ConvTranspose2d L hc hc 4 2 1) (\<lambda>v.
      let self = self\<lparr>upsample_1 := Some v\<rparr> in
      bindE (all_equals L (l3 cfg) (get_block_params cfg (num_groups cfg) (img_size cfg div 4))) (\<lambda>v.
      let self = self\<lparr>resBlock3up := Some v\<rparr> in
      bindE (nn_ConvTranspose2d L hc hc 4 2 1) (\<lambda>v.
      let self = self\<lparr>upsample_2 := Some v\<rparr> in
      bindE (all_equals L (l2 cfg) (get_block_params cfg (num_groups cfg) (img_size cfg div 2))) (\<lambda>v.
      let self = self\<lparr>resBlock2up := Some v\<rparr> in
      bindE (nn_ConvTranspose2d L hc hc 4 2 1) (\<lambda>v.
      let self = self\<lparr>upsample_3 := Some v\<rparr> in
      bindE (all_equals L (l1 cfg) (get_block_params cfg 1 (img_size cfg))) (\<lambda>v.
      let self = self\<lparr>resBlock1Up := Some v\<rparr> in
      bindE (Head_default L) (\<lambda>v.
      let self = self\<lparr>head := Some v\<rparr> in
      Inr self))))))))))))))))))))))"

text \<open>
  \<^verbatim>\<open>forward\<close> (lines 276-313). The label embedder is the only module that reads
  the random generator, whose state at the call is \<open>rng\<close>.
\<close>

definition ImageDiffiT_forward ::
  "('a::comm_ring_1, 'r) ImageDiffiT \<Rightarrow> 'r \<Rightarrow> 'a fmap \<Rightarrow> 'a vec \<Rightarrow> int vec \<Rightarrow> error + 'a fmap" where
  "ImageDiffiT_forward self rng x t y =
     bindE (getattr (t_embedder self)) (\<lambda>te. bindE (te t) (\<lambda>xt.
     bindE (getattr (y_embedder self)) (\<lambda>ye. bindE (ye rng y) (\<lambda>xl.
     bindE (add_mat xt xl) (\<lambda>c.
     bindE (getattr (tokenizer self)) (\<lambda>tk. bindE (Tokenizer_forward tk x) (\<lambda>x1.
     bindE (getattr (resBlock1 self)) (\<lambda>m. bindE (call_xc m x1 c) (\<lambda>x1.
     bindE (getattr (downsample_1 self)) (\<lambda>d. bindE (d x1) (\<lambda>x2.
     bindE (getattr (resBlock2 self)) (\<lambda>m. bindE (call_xc m x2 c) (\<lambda>x2.
     bindE (getattr (downsample_2 self)) (\<lambda>d. bindE (d x2) (\<lambda>x3.
     bindE (getattr (resBlock3 self)) (\<lambda>m. bindE (call_xc m x3 c) (\<lambda>x3.
     bindE (getattr (downsample_3 self)) (\<lambda>d. bindE (d x3) (\<lambda>x4.
     bindE (getattr (resBlock4 self)) (\<lambda>m. bindE (call_xc m x4 c) (\<lambda>x4.
     bindE (getattr (upsample_1 self)) (\<lambda>u. bindE (u x4) (\<lambda>up.
     bindE (add_fmap x3 up) (\<lambda>x3.
     bindE (getattr (resBlock3up self)) (\<lambda>m. bindE (call_xc m x3 c) (\<lambda>x3.
     bindE (getattr (upsample_2 self)) (\<lambda>u. bindE (u x3) (\<lambda>up.
     bindE (add_fmap x2 up) (\<lambda>x2.
     bindE (getattr (resBlock2 self)) (\<lambda>m. bindE (call_xc m x2 c) (\<lambda>x2.
     bindE (getattr (upsample_3 self)) (\<lambda>u. bindE (u x2) (\<lambda>up.
     bindE (add_fmap x1 up) (\<lambda>x1.
     bindE (getattr (resBlock1Up self)) (\<lambda>m. bindE (call_xc m x1 c) (\<lambda>x1.
     bindE (getattr (head self)) (\<lambda>h. Head_forward h x1)))))))))))))))))))))))))))))))))))))"

text \<open>Concatenation, slicing and the arithmetic of \<^verbatim>\<open>forward_with_cfg\<close>.\<close>

definition cat0 :: "'a fmap \<Rightarrow> 'a fmap \<Rightarrow> 'a fmap" where
  "cat0 a b = a\<lparr>fB := fB a + fB b,
                 fval := (\<lambda>n k i j. if n < fB a then fval a n k i j else fval b (n - fB a) k i j)\<rparr>"

definition cat1 :: "'a fmap \<Rightarrow> 'a fmap \<Rightarrow> 'a fmap" where
  "cat1 a b = a\<lparr>fC := fC a + fC b,
                 fval := (\<lambda>n k i j. if k < fC a then fval a n k i j else fval b n (k - fC a) i j)\<rparr>"

definition cat_vec :: "'b vec \<Rightarrow> 'b vec \<Rightarrow> 'b vec" where
  "cat_vec a b = \<lparr>vN = vN a + vN b, vval = (\<lambda>n. if n < vN a then vval a n else vval b (n - vN a))\<rparr>"

definition full :: "nat \<Rightarrow> 'b \<Rightarrow> 'b vec" where
  "full n v = \<lparr>vN = n, vval = (\<lambda>_. v)\<rparr>"

definition first_channels :: "nat \<Rightarrow> 'a fmap \<Rightarrow> 'a fmap" where
  "first_channels k x = x\<lparr>fC := min k (fC x)\<rparr>"

definition channels_from :: "nat \<Rightarrow> 'a fmap \<Rightarrow> 'a fmap" where
  "channels_from k x = x\<lparr>fC := fC x - k, fval := (\<lambda>n c i j. fval x n (c + k) i j)\<rparr>"

text \<open>
  \<^verbatim>\<open>a, b = torch.split(eps, len(eps) // 2, dim=0)\<close>: chunks of the given size; a
  size of 0 is an error unless the batch is empty, and the unpacking raises ValueError
  unless there are exactly two chunks.
\<close>

definition split_halves :: "'a fmap \<Rightarrow> error + 'a fmap \<times> 'a fmap" where
  "split_halves eps =
     (let s = fB eps div 2 in
      if s = 0 then (if fB eps = 0 then Inl ValueError else Inl RuntimeError)
      else if fB eps mod 2 \<noteq> 0 then Inl ValueError
      else Inr (eps\<lparr>fB := s\<rparr>,
                eps\<lparr>fB := s, fval := (\<lambda>n k i j. fval eps (n + s) k i j)\<rparr>))"

definition guide :: "'a::comm_ring_1 \<Rightarrow> 'a fmap \<Rightarrow> 'a fmap \<Rightarrow> 'a fmap" where
  "guide cfg_scale cond_eps uncond_eps =
     uncond_eps\<lparr>fval := (\<lambda>n k i j. fval uncond_eps n k i j
                  + cfg_scale * (fval cond_eps n k i j - fval uncond_eps n k i j))\<rparr>"

text \<open>
  Lines 343-353 of \<^verbatim>\<open>forward_with_cfg\<close>: what is returned for the output
  \<open>model_out\<close> of the U-Net.
\<close>

definition guided_output :: "'a::comm_ring_1 \<Rightarrow> 'a fmap \<Rightarrow> error + 'a fmap" where
  "guided_output cfg_scale model_out =
     (let eps = first_channels 3 model_out;
          rest = channels_from 3 model_out
      in bindE (split_halves eps) (\<lambda>(cond_eps, uncond_eps).
         let half_eps = guide cfg_scale cond_eps uncond_eps;
             eps = cat0 half_eps half_eps
         in Inr (cat1 eps rest)))"

definition forward_with_cfg ::
  "('a::comm_ring_1, 'r) ImageDiffiT \<Rightarrow> 'r \<Rightarrow> 'a fmap \<Rightarrow> 'a vec \<Rightarrow> int vec \<Rightarrow> 'a \<Rightarrow> error + 'a fmap" where
  "forward_with_cfg self rng x t y cfg_scale =
     (let combined = cat0 x x;
          combined_times = cat_vec t t
      in bindE (getattr (num_classes self)) (\<lambda>nc.
         let null_labels = full (fB x) nc;
             combined_labels = cat_vec y null_labels
         in bindE (ImageDiffiT_forward self rng combined combined_times combined_labels)
              (guided_output cfg_scale)))"

section \<open>A reference library for evaluation\<close>

text \<open>
  To run the constructors and the forward passes on concrete inputs, \<open>ref_lib\<close>
  gives every library class the documented checks and shapes, with simple entries: a
  convolution of kernel k, stride s and padding p maps an extent n to
  \<open>(n + 2p - k) div s + 1\<close>, a transposed one to \<open>(n - 1) * s + k - 2p\<close>; the
  patch embedding asserts the image size it was built for. Its label embedder replaces
  label \<open>i\<close> by the null label when the generator state \<open>rng i\<close> says so and the
  dropout probability is positive. The general theorems below hold for every library.
\<close>

definition ref_GroupNorm :: "pyval \<Rightarrow> pyval \<Rightarrow> error + int layer" where
  "ref_GroupNorm groups num_channels =
     bindE (py_mod num_channels groups) (\<lambda>r.
     if r \<noteq> 0 then Inl ValueError
     else case num_channels of
            PModule _ \<Rightarrow> Inl TypeError
          | PInt c \<Rightarrow>
              if c < 0 then Inl RuntimeError
              else Inr (\<lambda>x. if fC x = nat c then Inr x else Inl RuntimeError))"

definition conv_out :: "nat \<Rightarrow> nat \<Rightarrow> nat \<Rightarrow> nat \<Rightarrow> nat" where
  "conv_out k s p n = (n + 2 * p - k) div s + 1"

definition convT_out :: "nat \<Rightarrow> nat \<Rightarrow> nat \<Rightarrow> nat \<Rightarrow> nat" where
  "convT_out k s p n = (n - 1) * s + k - 2 * p"

definition ref_Conv2d :: "pyval \<Rightarrow> pyval \<Rightarrow> int \<Rightarrow> int \<Rightarrow> int \<Rightarrow> error + int layer" where
  "ref_Conv2d in_channels out_channels k s p =
     (case (in_channels, out_channels) of
        (PInt ci, PInt co) \<Rightarrow>
          if ci < 0 \<or> co < 0 \<or> k \<le> 0 \<or> s \<le> 0 \<or> p < 0 then Inl RuntimeError
          else Inr (\<lambda>x.
            if fC x = nat ci \<and> nat k \<le> fH x + 2 * nat p \<and> nat k \<le> fW x + 2 * nat p
            then Inr \<lparr>fB = fB x, fC = nat co,
                      fH = conv_out (nat k) (nat s) (nat p) (fH x),
                      fW = conv_out (nat k) (nat s) (nat p) (fW x),
                      fval = (\<lambda>n c i j. 0)\<rparr>
            else Inl RuntimeError)
      | _ \<Rightarrow> Inl TypeError)"

definition ref_ConvTranspose2d :: "pyval \<Rightarrow> pyval \<Rightarrow> int \<Rightarrow> int \<Rightarrow> int \<Rightarrow> error + int layer" where
  "ref_ConvTranspose2d in_channels out_channels k s p =
     (case (in_channels, out_channels) of
        (PInt ci, PInt co) \<Rightarrow>
          if ci < 0 \<or> co < 0 \<or> k \<le> 0 \<or> s \<le> 0 \<or> p < 0 then Inl RuntimeError
          else Inr (\<lambda>x.
            if fC x = nat ci \<and> 0 < fH x \<and> 0 < fW x
               \<and> 2 * nat p < (fH x - 1) * nat s + nat k \<and> 2 * nat p < (fW x - 1) * nat s + nat k
            then Inr \<lparr>fB = fB x, fC = nat co,
                      fH = convT_out (nat k) (nat s) (nat p) (fH x),
                      fW = convT_out (nat k) (nat s) (nat p) (fW x),
                      fval = (\<lambda>n c i j. 0)\<rparr>
            else Inl RuntimeError)
      | _ \<Rightarrow> Inl TypeError)"

definition ref_PatchEmbed :: "pyval \<Rightarrow> pyval \<Rightarrow> pyval \<Rightarrow> pyval \<Rightarrow> error + int PatchEmbed" where
  "ref_PatchEmbed img patch in_chans embed_dim =
     (case (img, patch, in_chans, embed_dim) of
        (PInt s, PInt p, PInt c, PInt d) \<Rightarrow>
          if p = 0 then Inl ZeroDivisionError
          else if s < 0 \<or> p < 0 \<or> c < 0 \<or> d < 0 then Inl RuntimeError
          else Inr \<lparr>pe_patch_size0 = nat p,
                    pe_num_patches = nat (s div p) * nat (s div p),
                    pe_forward = (\<lambda>x.
                      if \<not> (fH x = nat s \<and> fW x = nat s) then Inl AssertionError
                      else if fC x = nat c \<and> nat p \<le> fH x
                      then Inr \<lparr>tB = fB x, tT = nat (s div p) * nat (s div p), tD = nat d,
                                tval = (\<lambda>n t k. 0)\<rparr>
                      else Inl RuntimeError)\<rparr>
      | _ \<Rightarrow> Inl TypeError)"

definition ref_DiffTBlock :: "pyval \<Rightarrow> pyval \<Rightarrow> error + (int tokens \<Rightarrow> int mat \<Rightarrow> error + int tokens)" where
  "ref_DiffTBlock hs heads =
     (case (hs, heads) of
        (PInt d, PInt h) \<Rightarrow>
          if d < 0 \<or> h \<le> 0 then Inl RuntimeError
          else Inr (\<lambda>x c.
            if tD x = nat d \<and> mD c = nat d \<and> mB c = tB x then Inr x else Inl RuntimeError)
      | _ \<Rightarrow> Inl TypeError)"

definition ref_FinalLayer :: "pyval \<Rightarrow> pyval \<Rightarrow> pyval \<Rightarrow> error + (int tokens \<Rightarrow> error + int tokens)" where
  "ref_FinalLayer hs patch out_channels =
     (case (hs, patch, out_channels) of
        (PInt d, PInt p, PInt c) \<Rightarrow>
          if d < 0 \<or> p < 0 \<or> c < 0 then Inl RuntimeError
          else Inr (\<lambda>x.
            if tD x = nat d
            then Inr \<lparr>tB = tB x, tT = tT x, tD = nat p * nat p * nat c,
                      tval = (\<lambda>n t k. tval x n t 0 + int k)\<rparr>
            else Inl RuntimeError)
      | _ \<Rightarrow> Inl TypeError)"

definition ref_sincos :: "int \<Rightarrow> nat \<Rightarrow> error + int mat" where
  "ref_sincos embed_dim grid_size =
     (if embed_dim mod 2 \<noteq> 0 then Inl AssertionError
      else Inr \<lparr>mB = grid_size * grid_size, mD = nat embed_dim, mval = (\<lambda>t d. int t)\<rparr>)"

definition ref_TimestepEmbedder :: "pyval \<Rightarrow> error + (int vec \<Rightarrow> error + int mat)" where
  "ref_TimestepEmbedder hs =
     (case hs of
        PInt d \<Rightarrow>
          if d < 0 then Inl RuntimeError
          else Inr (\<lambda>t. Inr \<lparr>mB = vN t, mD = nat d, mval = (\<lambda>n k. vval t n)\<rparr>)
      | _ \<Rightarrow> Inl TypeError)"

definition ref_LabelEmbedder ::
  "pyval \<Rightarrow> pyval \<Rightarrow> real \<Rightarrow> error + ((nat \<Rightarrow> bool) \<Rightarrow> int vec \<Rightarrow> error + int mat)" where
  "ref_LabelEmbedder n_classes hs dropout_prob =
     (case (n_classes, hs) of
        (PInt nc, PInt d) \<Rightarrow>
          if d < 0 \<or> nc < 0 then Inl RuntimeError
          else Inr (\<lambda>rng y.
            Inr \<lparr>mB = vN y, mD = nat d,
                 mval = (\<lambda>n k. if 0 < dropout_prob \<and> rng n then nc else vval y n)\<rparr>)
      | _ \<Rightarrow> Inl TypeError)"

definition ref_lib :: "(int, nat \<Rightarrow> bool) lib" where
  "ref_lib =
     \<lparr>nn_GroupNorm = ref_GroupNorm, nn_SiLU = (\<lambda>v. v), nn_Conv2d = ref_Conv2d,
      nn_ConvTranspose2d = ref_ConvTranspose2d, new_PatchEmbed = ref_PatchEmbed,
      new_DiffTBlock = ref_DiffTBlock, new_FinalLayer = ref_FinalLayer,
      get_2d_sincos_pos_embed = ref_sincos, new_TimestepEmbedder = ref_TimestepEmbedder,
      new_LabelEmbedder = ref_LabelEmbedder\<rparr>"

section \<open>Contracts of the external layers\<close>

text \<open>
  What the theorems assume of a module that is not defined in the source file: that on
  every input of one given shape it returns an output of a given shape (the shape
  contracts of the spec's external interfaces and of the libraries' documentation).
\<close>

definition layer_maps ::
  "'a layer \<Rightarrow> nat \<times> nat \<times> nat \<times> nat \<Rightarrow> nat \<times> nat \<times> nat \<times> nat \<Rightarrow> bool" where
  "layer_maps f s s' = (\<forall>x. fshape x = s \<longrightarrow> (\<exists>y. f x = Inr y \<and> fshape y = s'))"

definition embed_maps ::
  "('a fmap \<Rightarrow> error + 'a tokens) \<Rightarrow> nat \<times> nat \<times> nat \<times> nat \<Rightarrow> nat \<times> nat \<times> nat \<Rightarrow> bool" where
  "embed_maps f s s' = (\<forall>x. fshape x = s \<longrightarrow> (\<exists>y. f x = Inr y \<and> tshape y = s'))"

definition mixer_maps ::
  "('a tokens \<Rightarrow> 'a mat \<Rightarrow> error + 'a tokens) \<Rightarrow> 'a mat \<Rightarrow> nat \<times> nat \<times> nat \<Rightarrow> bool" where
  "mixer_maps f c s = (\<forall>x. tshape x = s \<longrightarrow> (\<exists>y. f x c = Inr y \<and> tshape y = s))"

definition proj_maps ::
  "('a tokens \<Rightarrow> error + 'a tokens) \<Rightarrow> nat \<times> nat \<times> nat \<Rightarrow> nat \<times> nat \<times> nat \<Rightarrow> bool" where
  "proj_maps f s s' = (\<forall>x. tshape x = s \<longrightarrow> (\<exists>y. f x = Inr y \<and> tshape y = s'))"


section \<open>Concrete inputs\<close>

text \<open>
  A small block, built by the constructor from the reference library for 4 x 4 images
  with 2 channels, patches of side 2 and hidden size 8, with an input and a
  conditioning vector for it; a token tensor of one patch and one of three.
\<close>

definition small_kwargs :: "(string \<times> pyval) list" where
  "small_kwargs =
     [(''img_size'', PInt 4), (''num_heads'', PInt 2), (''patch_size'', PInt 2),
      (''hidden_size'', PInt 8), (''channels'', PInt 2), (''num_groups'', PInt 1)]"

definition small_block :: "int DiffiTResBlock" where
  "small_block = projr (DiffiTResBlock_init ref_lib [] small_kwargs)"

definition x0 :: "int fmap" where
  "x0 = \<lparr>fB = 1, fC = 2, fH = 4, fW = 4, fval = (\<lambda>n k i j. int (k + i + j))\<rparr>"

definition c0 :: "int mat" where
  "c0 = \<lparr>mB = 1, mD = 8, mval = (\<lambda>n d. 1)\<rparr>"

definition tok1 :: "int tokens" where
  "tok1 = \<lparr>tB = 1, tT = 1, tD = 8, tval = (\<lambda>n t d. int d)\<rparr>"

definition tok3 :: "int tokens" where
  "tok3 = \<lparr>tB = 1, tT = 3, tD = 8, tval = (\<lambda>n t d. int d)\<rparr>"








section \<open>Basic facts\<close>

lemma bindE_Inr [simp]: "bindE (Inr v) f = f v"
  by (simp add: bindE_def)

lemma bindE_Inl [simp]: "bindE (Inl e) f = Inl e"
  by (simp add: bindE_def)

lemma bindE_eq_Inr: "bindE m f = Inr v \<longleftrightarrow> (\<exists>a. m = Inr a \<and> f a = Inr v)"
  by (cases m) simp_all

lemma sq_le_imp_le: "(a::nat) * a \<le> b * b \<Longrightarrow> a \<le> b"
proof (rule ccontr)
  assume le: "a * a \<le> b * b" and "\<not> a \<le> b"
  then have lt: "b < a" by simp
  have "b * b \<le> b * a" using lt by simp
  also have "b * a < a * a" using lt by simp
  finally show False using le by linarith
qed

lemma isqrt_upto_square: "k \<le> m \<Longrightarrow> isqrt_upto (k * k) m = k"
proof (induction m)
  case 0
  then show ?case by simp
next
  case (Suc m)
  show ?case
  proof (cases "Suc m * Suc m \<le> k * k")
    case True
    then have "Suc m \<le> k" by (rule sq_le_imp_le)
    with Suc.prems have "k = Suc m" by simp
    then show ?thesis by simp
  next
    case False
    then have "k \<noteq> Suc m" by auto
    with Suc.prems have "k \<le> m" by simp
    with Suc.IH False show ?thesis by simp
  qed
qed

lemma isqrt_square [simp]: "isqrt (k * k) = k"
proof -
  have "k \<le> k * k" by (cases k) simp_all
  then show ?thesis by (simp add: isqrt_def isqrt_upto_square)
qed

lemma isqrt_1024: "isqrt 1024 = 32"
  using isqrt_square [of 32] by simp

lemma isqrt_4: "isqrt 4 = 2"
  using isqrt_square [of 2] by simp




lemma bdim_same [simp]: "bdim a a = Some a"
  by (simp add: bdim_def)

lemma bdim_one [simp]: "bdim a (Suc 0) = Some a"
  by (simp add: bdim_def)

lemma bidx_lt: "i < d \<Longrightarrow> bidx d i = i"
  by (auto simp: bidx_def)

lemmas ref_lib_simps =
  ref_lib_def ref_GroupNorm_def ref_Conv2d_def ref_ConvTranspose2d_def ref_DiffTBlock_def
  ref_PatchEmbed_def ref_FinalLayer_def ref_sincos_def ref_TimestepEmbedder_def
  ref_LabelEmbedder_def

section \<open>The hybrid residual block\<close>

lemma add_fmap_same_shape:
  assumes "fshape u = fshape x'"
  shows "\<exists>out. add_fmap u x' = Inr out \<and> fshape out = fshape x'
    \<and> (\<forall>n k i j. n < fB x' \<and> k < fC x' \<and> i < fH x' \<and> j < fW x'
          \<longrightarrow> fval out n k i j = fval u n k i j + fval x' n k i j)"
  using assms by (simp add: add_fmap_def fshape_def bidx_lt)

lemma add_tokens_pos:
  assumes "tshape e = (B, T, D)" and "tshape pos = (1, T, D)"
  shows "\<exists>xp. add_tokens e pos = Inr xp \<and> tshape xp = (B, T, D)"
  using assms by (simp add: add_tokens_def tshape_def)

lemma unpatchify_square:
  assumes "b_channels b = PInt (int c)" and "pe_patch_size0 (b_x_embedder b) = p"
    and "tshape x = (B, h * h, p * p * c)"
  shows "\<exists>u. unpatchify b x = Inr u \<and> fshape u = (B, c, h * p, h * p)
     \<and> (\<forall>n k i j. fval u n k i j
           = tval x n ((i div p) * h + j div p) (((i mod p) * p + j mod p) * c + k))"
  using assms by (simp add: unpatchify_def Let_def tshape_def fshape_def py_assert_def)

lemma unpatchify_not_square:
  assumes "\<forall>h. tT x \<noteq> h * h"
  shows "unpatchify b x = Inl AssertionError"
proof -
  from assms have "isqrt (tT x) * isqrt (tT x) \<noteq> tT x" by metis
  then show ?thesis by (simp add: unpatchify_def Let_def py_assert_def)
qed

text \<open>The small block: what its constructor returns, and the contracts of its layers.\<close>

lemmas small_block_simps =
  small_block_def small_kwargs_def DiffiTResBlock_init_def bind_call_def block_params_def
  zeros_pos_embed_def copy_pos_embed_def py_assert_def isqrt_4 ref_lib_simps

lemma small_block_init: "DiffiTResBlock_init ref_lib [] small_kwargs = Inr small_block"
  by (simp add: small_block_simps)

lemma small_block_channels: "b_channels small_block = PInt (int 2)"
  by (simp add: small_block_simps)

lemma small_block_patch: "pe_patch_size0 (b_x_embedder small_block) = 2"
  by (simp add: small_block_simps)

lemma small_block_gn: "layer_maps (b_groupNorm small_block) (1, 2, 4, 4) (1, 2, 4, 4)"
  by (simp add: small_block_simps layer_maps_def fshape_def)

lemma small_block_cv: "layer_maps (b_conv2d small_block) (1, 2, 4, 4) (1, 2, 4, 4)"
  by (simp add: small_block_simps layer_maps_def fshape_def conv_out_def)

lemma small_block_pe:
  "embed_maps (pe_forward (b_x_embedder small_block)) (1, 2, 4, 4) (1, (4 div 2) * (4 div 2), 8)"
  by (simp add: small_block_simps embed_maps_def fshape_def tshape_def)

lemma small_block_pos: "tshape (b_pos_embed small_block) = (1, (4 div 2) * (4 div 2), 8)"
  by (simp add: small_block_simps tshape_def)

lemma small_block_dt: "mixer_maps (b_diffit small_block) c0 (1, (4 div 2) * (4 div 2), 8)"
  by (simp add: small_block_simps mixer_maps_def tshape_def c0_def)

lemma small_block_fl:
  "proj_maps (b_final small_block) (1, (4 div 2) * (4 div 2), 8) (1, (4 div 2) * (4 div 2), 2 * 2 * 2)"
  by (simp add: small_block_simps proj_maps_def tshape_def)

text \<open>
  Claim C3. For a valid configuration (the patch size \<open>p\<close> divides the image size
  \<open>S\<close> the block was built for) and an input \<open>x\<close> of shape (B, C, S, S), the forward
  pass of the block returns a tensor of the shape of \<open>x\<close>, equal to the unpatchified
  projected mixed tokens \<open>u\<close> plus the post-convolution tensor
  \<open>x' = conv(silu(groupnorm(x)))\<close>, not the input \<open>x\<close>. The external layers are
  assumed to keep their shape contracts on inputs of this shape; that the position
  table adds to the tokens, that \<^verbatim>\<open>unpatchify\<close> returns and that the sum has the
  shape of \<open>x\<close> is proved of the source.
\<close>

theorem DiffiTResBlock_forward_shape:
  assumes chan: "b_channels b = PInt (int C)"
    and patch: "pe_patch_size0 (b_x_embedder b) = p" "p dvd S"
    and x: "fshape x = (B, C, S, S)"
    and gn: "layer_maps (b_groupNorm b) (B, C, S, S) (B, C, S, S)"
    and cv: "layer_maps (b_conv2d b) (B, C, S, S) (B, C, S, S)"
    and pe: "embed_maps (pe_forward (b_x_embedder b)) (B, C, S, S) (B, (S div p) * (S div p), D)"
    and pos: "tshape (b_pos_embed b) = (1, (S div p) * (S div p), D)"
    and dt: "mixer_maps (b_diffit b) c (B, (S div p) * (S div p), D)"
    and fl: "proj_maps (b_final b) (B, (S div p) * (S div p), D) (B, (S div p) * (S div p), p * p * C)"
  shows "\<exists>g x' e xp m f u out.
           b_groupNorm b x = Inr g
         \<and> b_conv2d b (map_fmap (b_swish b) g) = Inr x'
         \<and> pe_forward (b_x_embedder b) x' = Inr e
         \<and> add_tokens e (b_pos_embed b) = Inr xp
         \<and> b_diffit b xp c = Inr m
         \<and> b_final b m = Inr f
         \<and> unpatchify b f = Inr u
         \<and> DiffiTResBlock_forward b x c = Inr out
         \<and> fshape out = fshape x
         \<and> (\<forall>n k i j. n < B \<and> k < C \<and> i < S \<and> j < S
               \<longrightarrow> fval out n k i j = fval u n k i j + fval x' n k i j)"
proof -
  let ?T = "(S div p) * (S div p)"
  from gn x obtain g where g: "b_groupNorm b x = Inr g" "fshape g = (B, C, S, S)"
    by (auto simp: layer_maps_def)
  have "fshape (map_fmap (b_swish b) g) = (B, C, S, S)"
    using g by (simp add: map_fmap_def fshape_def)
  with cv obtain x' where x': "b_conv2d b (map_fmap (b_swish b) g) = Inr x'" "fshape x' = (B, C, S, S)"
    by (auto simp: layer_maps_def)
  from pe x' obtain e where e: "pe_forward (b_x_embedder b) x' = Inr e" "tshape e = (B, ?T, D)"
    by (auto simp: embed_maps_def)
  from add_tokens_pos [OF e(2) pos] obtain xp
    where xp: "add_tokens e (b_pos_embed b) = Inr xp" "tshape xp = (B, ?T, D)" by blast
  from dt xp obtain m where m: "b_diffit b xp c = Inr m" "tshape m = (B, ?T, D)"
    by (auto simp: mixer_maps_def)
  from fl m obtain f where f: "b_final b m = Inr f" "tshape f = (B, ?T, p * p * C)"
    by (auto simp: proj_maps_def)
  from unpatchify_square [OF chan patch(1) f(2)] obtain u
    where u: "unpatchify b f = Inr u" "fshape u = (B, C, (S div p) * p, (S div p) * p)" by blast
  from patch(2) have "(S div p) * p = S" by simp
  with u x' have "fshape u = fshape x'" by simp
  from add_fmap_same_shape [OF this] obtain out
    where out: "add_fmap u x' = Inr out" "fshape out = fshape x'"
      "\<forall>n k i j. n < fB x' \<and> k < fC x' \<and> i < fH x' \<and> j < fW x'
          \<longrightarrow> fval out n k i j = fval u n k i j + fval x' n k i j" by blast
  have fwd: "DiffiTResBlock_forward b x c = Inr out"
    using g x' e xp m f u out by (simp add: DiffiTResBlock_forward_def)
  have dims: "fB x' = B" "fC x' = C" "fH x' = S" "fW x' = S"
    using x' by (simp_all add: fshape_def)
  show ?thesis
    using g(1) x'(1) e(1) xp(1) m(1) f(1) u(1) fwd out(2,3) x'(2) x dims by auto
qed

theorem DiffiTResBlock_forward_shape_witness:
  "DiffiTResBlock_init ref_lib [] small_kwargs = Inr small_block
   \<and> fshape x0 = (1, 2, 4, 4)
   \<and> (\<exists>out. DiffiTResBlock_forward small_block x0 c0 = Inr out \<and> fshape out = fshape x0)"
proof -
  have x: "fshape x0 = (1, 2, 4, 4)" by (simp add: x0_def fshape_def)
  have "(2::nat) dvd 4" by simp
  from DiffiTResBlock_forward_shape [OF small_block_channels small_block_patch this x
      small_block_gn small_block_cv small_block_pe small_block_pos small_block_dt small_block_fl]
  have "\<exists>out. DiffiTResBlock_forward small_block x0 c0 = Inr out \<and> fshape out = fshape x0"
    by blast
  with small_block_init x show ?thesis by blast
qed

text \<open>
  Claim C7, as stated: \<^verbatim>\<open>unpatchify\<close> fails if the number of patches is not a
  perfect square or if the reconstructed spatial size disagrees with the original H x W.
  The second part does not hold: \<^verbatim>\<open>unpatchify\<close> sees the token tensor only. The
  small block is built for 4 x 4 images; given the tokens of one patch it returns a
  2 x 2 image.
\<close>

theorem unpatchify_ignores_image_size:
  "DiffiTResBlock_init ref_lib [] small_kwargs = Inr small_block
   \<and> fshape x0 = (1, 2, 4, 4)
   \<and> tshape tok1 = (1, 1, 2 * 2 * 2)
   \<and> map_sum id fshape (unpatchify small_block tok1) = Inr (1, 2, 2, 2)"
proof -
  have c: "tshape tok1 = (1, 1 * 1, 2 * 2 * 2)" by (simp add: tok1_def tshape_def)
  from unpatchify_square [OF small_block_channels small_block_patch c]
  have "map_sum id fshape (unpatchify small_block tok1) = Inr (1, 2, 2, 2)" by auto
  with small_block_init c show ?thesis by (simp add: x0_def fshape_def)
qed

lemma add_fmap_height_mismatch:
  assumes "fH u \<noteq> fH x'" and "fH u \<noteq> 1" and "fH x' \<noteq> 1"
  shows "add_fmap u x' = Inl RuntimeError"
  using assms by (simp add: add_fmap_def bdim_def split: option.splits)

lemma three_not_square: "(3::nat) \<noteq> h * h"
proof
  assume eq: "3 = h * h"
  have "h < 2 \<or> 2 \<le> h" by auto
  then show False
  proof
    assume "h < 2"
    then have "h = 0 \<or> h = 1" by auto
    with eq show False by auto
  next
    assume h2: "2 \<le> h"
    have "2 * 2 \<le> h * h" using mult_le_mono [OF h2 h2] .
    with eq show False by simp
  qed
qed

text \<open>
  Claim C7, amended. Given a token tensor of shape (batch, num_patches, p * p * channels),
  \<^verbatim>\<open>unpatchify\<close> raises AssertionError if num_patches is not a perfect square, and
  otherwise, with \<open>num_patches = h * h\<close>, returns a tensor of shape
  (batch, channels, h * p, h * p); it does not compare this with the size of the image.
  A reconstructed height that differs from the height of the feature map is an error of
  the residual addition of \<^verbatim>\<open>forward\<close> (line 153), a RuntimeError unless one of the
  two heights is 1.
\<close>

theorem unpatchify_checks:
  "((\<forall>h. tT x \<noteq> h * h) \<longrightarrow> unpatchify b x = Inl AssertionError)
   \<and> (b_channels b = PInt (int c) \<and> pe_patch_size0 (b_x_embedder b) = p
        \<and> tshape x = (B, h * h, p * p * c)
      \<longrightarrow> (\<exists>u. unpatchify b x = Inr u \<and> fshape u = (B, c, h * p, h * p)))
   \<and> (fH u \<noteq> fH x' \<and> fH u \<noteq> 1 \<and> fH x' \<noteq> 1 \<longrightarrow> add_fmap u x' = Inl RuntimeError)"
  using unpatchify_not_square unpatchify_square add_fmap_height_mismatch by blast

theorem unpatchify_checks_witness:
  "(\<forall>h. tT tok3 \<noteq> h * h) \<and> unpatchify small_block tok3 = Inl AssertionError
   \<and> b_channels small_block = PInt (int 2) \<and> pe_patch_size0 (b_x_embedder small_block) = 2
   \<and> tshape tok1 = (1, 1 * 1, 2 * 2 * 2)
   \<and> (\<exists>u. unpatchify small_block tok1 = Inr u \<and> fshape u = (1, 2, 1 * 2, 1 * 2)
         \<and> fH u \<noteq> fH x0 \<and> fH u \<noteq> 1 \<and> fH x0 \<noteq> 1 \<and> add_fmap u x0 = Inl RuntimeError)"
proof -
  have a: "\<forall>h. tT tok3 \<noteq> h * h" using three_not_square by (simp add: tok3_def)
  have c: "tshape tok1 = (1, 1 * 1, 2 * 2 * 2)" by (simp add: tok1_def tshape_def)
  from unpatchify_checks [of tok3 small_block 2 2 1 1] a
  have t3: "unpatchify small_block tok3 = Inl AssertionError" by blast
  from unpatchify_checks [of tok1 small_block 2 2 1 1] small_block_channels small_block_patch c
  obtain u where u: "unpatchify small_block tok1 = Inr u" "fshape u = (1, 2, 1 * 2, 1 * 2)"
    by blast
  then have h: "fH u \<noteq> fH x0" "fH u \<noteq> 1" "fH x0 \<noteq> 1"
    by (simp_all add: fshape_def x0_def)
  with unpatchify_checks [of tok1 small_block 2 2 1 1 u x0]
  have "add_fmap u x0 = Inl RuntimeError" by blast
  with a c t3 u h small_block_channels small_block_patch show ?thesis by blast
qed

section \<open>The block stack\<close>

text \<open>
  Claim C10. A \<^verbatim>\<open>DiffiTSequential\<close> constructed with zero blocks is the identity on
  the feature map: for every feature map \<open>x\<close> and every conditioning vector \<open>c\<close>
  its forward pass returns \<open>x\<close> unchanged.
\<close>

theorem empty_stack_is_identity:
  "call_xc (DiffiTSequential_init []) x c = Inr x"
  by (simp add: DiffiTSequential_init_def)

text \<open>
  The constructor of a block, called with four or more modules as positional arguments,
  raises TypeError at \<^verbatim>\<open>hidden_size % num_heads\<close> (line 90): both operands are
  modules. With more than six it raises on binding them.
\<close>

lemma init_modules_TypeError:
  "DiffiTResBlock_init L (PModule a # PModule b # PModule c # PModule d # rest) [] = Inl TypeError"
proof (cases rest)
  case Nil
  then show ?thesis by (simp add: DiffiTResBlock_init_def bind_call_def block_params_def)
next
  case (Cons r1 rs)
  show ?thesis
  proof (cases rs)
    case Nil
    with Cons show ?thesis by (simp add: DiffiTResBlock_init_def bind_call_def block_params_def)
  next
    case rs: (Cons r2 rs2)
    show ?thesis
    proof (cases rs2)
      case Nil
      with Cons rs show ?thesis
        by (simp add: DiffiTResBlock_init_def bind_call_def block_params_def)
    next
      case (Cons r3 rs3)
      with \<open>rest = r1 # rs\<close> rs show ?thesis
        by (simp add: DiffiTResBlock_init_def bind_call_def block_params_def)
    qed
  qed
qed

lemma repeatE_Inr: "repeatE k (Inr b) = Inr (replicate k b)"
  by (induction k) simp_all

lemma all_equals_4:
  "DiffiTResBlock_init L [] kw = Inr b \<Longrightarrow> all_equals L 4 kw = Inl TypeError"
  by (simp add: all_equals_def repeatE_Inr numeral_eq_Suc init_modules_TypeError del: repeatE.simps)

lemma all_equals_4_fails: "all_equals L 4 kwargs \<noteq> Inr m"
proof (cases "DiffiTResBlock_init L [] kwargs")
  case (Inl e)
  then show ?thesis by (simp add: all_equals_def numeral_eq_Suc)
next
  case (Inr b)
  then show ?thesis by (simp add: all_equals_4)
qed

lemma bind64:
  "bind_call block_params [] (get_block_params (default_config 64) 1 64)
     = Inr [PInt 64, PInt 16, PInt 2, PInt 1152, PInt 128, PInt 1]"
  by (simp add: bind_call_def block_params_def get_block_params_def default_config_def)

lemma block64_constructs:
  "\<exists>b. DiffiTResBlock_init ref_lib [] (get_block_params (default_config 64) 1 64) = Inr b"
  by (simp add: DiffiTResBlock_init_def bind64 ref_lib_def ref_GroupNorm_def ref_Conv2d_def
      ref_DiffTBlock_def ref_PatchEmbed_def ref_FinalLayer_def ref_sincos_def
      zeros_pos_embed_def copy_pos_embed_def py_assert_def isqrt_1024)

lemma all_equals_ref64:
  "all_equals ref_lib 4 (get_block_params (default_config 64) 1 64) = Inl TypeError"
  using block64_constructs all_equals_4 by blast

text \<open>
  Claim C2. For every \<open>n \<ge> 1\<close> the block stack built by
  \<^verbatim>\<open>DiffiTSequential.all_equals(n, ...)\<close> is a container of \<open>n\<close> blocks of
  identical configuration whose forward pass applies them in sequence. The code does not
  do so: \<^verbatim>\<open>all_equals\<close> never returns a \<^verbatim>\<open>DiffiTSequential\<close>, whatever
  the libraries do; for \<open>n = 4\<close> it raises, and with the reference library the
  exception is the TypeError of line 90.
\<close>

theorem all_equals_builds_no_stack:
  "all_equals L n kwargs \<noteq> Inr (DiffiTSequential_init blocks)
   \<and> all_equals L 4 kwargs \<noteq> Inr m
   \<and> all_equals ref_lib 4 (get_block_params (default_config 64) 1 64) = Inl TypeError"
proof -
  have "all_equals L n kwargs \<noteq> Inr (DiffiTSequential_init blocks)"
    by (auto simp: all_equals_def bindE_eq_Inr DiffiTSequential_init_def)
  then show ?thesis using all_equals_ref64 all_equals_4_fails by blast
qed

lemma DiffiTSequential_forward_append:
  "DiffiTSequential_forward (bs @ cs) x c
     = bindE (DiffiTSequential_forward bs x c) (\<lambda>x1. DiffiTSequential_forward cs x1 c)"
proof (induction bs arbitrary: x)
  case Nil
  then show ?case by simp
next
  case (Cons b bs)
  then show ?case by (cases "DiffiTResBlock_forward b x c") simp_all
qed

section \<open>Configuration checks\<close>

lemma block_init_checks_heads:
  assumes "bind_call block_params args kw = Inr [i, PInt nh, p, PInt hs, c, g]"
    and "nh \<noteq> 0" and "hs mod nh \<noteq> 0"
  shows "DiffiTResBlock_init L args kw = Inl AssertionError"
  using assms by (simp add: DiffiTResBlock_init_def py_assert_def)

lemma block_init_checks_groups:
  assumes "bind_call block_params args kw = Inr [i, PInt nh, p, PInt hs, PInt c, PInt g]"
    and "nh \<noteq> 0" and "g \<noteq> 0" and "c mod g \<noteq> 0"
  shows "DiffiTResBlock_init L args kw = Inl AssertionError"
  using assms by (simp add: DiffiTResBlock_init_def py_assert_def)

lemma block_init_succeeds:
  assumes "bind_call block_params args kw = Inr [i, PInt nh, p, PInt hs, PInt c, PInt g]"
    and "nh \<noteq> 0" and "g \<noteq> 0" and "hs mod nh = 0" and "c mod g = 0"
    and "nn_GroupNorm L (PInt g) (PInt c) = Inr gn"
    and "nn_Conv2d L (PInt c) (PInt c) 3 1 1 = Inr cv"
    and "new_DiffTBlock L (PInt hs) (PInt nh) = Inr dt"
    and "new_PatchEmbed L i p (PInt c) (PInt hs) = Inr pe"
    and "zeros_pos_embed (pe_num_patches pe) (PInt hs) = Inr z"
    and "new_FinalLayer L (PInt hs) p (PInt c) = Inr fl"
    and "copy_pos_embed L z pe = Inr pos"
  shows "\<exists>b. DiffiTResBlock_init L args kw = Inr b"
  using assms by (simp add: DiffiTResBlock_init_def py_assert_def)

lemma unet_init_checks:
  assumes "num_heads cfg \<noteq> 0" and "num_groups cfg \<noteq> 0"
    and "hidden_size cfg mod num_heads cfg \<noteq> 0 \<or> hidden_channels cfg mod num_groups cfg \<noteq> 0"
  shows "ImageDiffiT_init L cfg = Inl AssertionError"
  using assms by (auto simp: ImageDiffiT_init_def Let_def py_assert_def)

lemma block_100_7:
  "DiffiTResBlock_init L []
     [(''img_size'', PInt 64), (''hidden_size'', PInt 100), (''num_heads'', PInt 7)]
     = Inl AssertionError"
  by (simp add: DiffiTResBlock_init_def bind_call_def block_params_def py_assert_def)

lemma block_128_8:
  "\<exists>b. DiffiTResBlock_init ref_lib []
     [(''img_size'', PInt 64), (''hidden_size'', PInt 128), (''num_heads'', PInt 8)] = Inr b"
  by (simp add: DiffiTResBlock_init_def bind_call_def block_params_def zeros_pos_embed_def
      copy_pos_embed_def py_assert_def isqrt_1024 ref_lib_simps)

section \<open>The U-Net\<close>

lemma init_ref64: "ImageDiffiT_init ref_lib (default_config 64) = Inl TypeError"
proof -
  have "get_block_params (default_config 64) 1 (img_size (default_config 64))
      = get_block_params (default_config 64) 1 64"
    by (simp add: default_config_def)
  then show ?thesis
    using all_equals_ref64
    by (simp add: ImageDiffiT_init_def Let_def default_config_def py_assert_def Tokenizer_init_def
      ref_lib_def ref_Conv2d_def ref_TimestepEmbedder_def ref_LabelEmbedder_def)
qed

lemma init_no_resBlock3: "ImageDiffiT_init L cfg = Inr self \<Longrightarrow> resBlock3 self = None"
  by (auto simp: ImageDiffiT_init_def Let_def bindE_eq_Inr new_module_def)

lemma forward_needs_resBlock3:
  "resBlock3 self = None \<Longrightarrow> ImageDiffiT_forward self rng x t y \<noteq> Inr out"
  by (auto simp: ImageDiffiT_forward_def bindE_eq_Inr getattr_def)

lemma init_default_fails: "ImageDiffiT_init L (default_config s) \<noteq> Inr self"
  by (auto simp: ImageDiffiT_init_def Let_def bindE_eq_Inr default_config_def all_equals_4_fails)

text \<open>
  Claim C6. Constructing a block or the U-Net fails with a configuration error when
  \<open>hidden_size\<close> is not divisible by \<open>num_heads\<close> or the channels are not by
  \<open>num_groups\<close>, and succeeds when both invariants hold. The checks are there
  (\<open>block_init_checks_heads\<close>, \<open>block_init_checks_groups\<close>,
  \<open>unet_init_checks\<close>) and a block whose library modules construct is returned
  (\<open>block_init_succeeds\<close>), but the U-Net is not: with the defaults of the
  signature both invariants hold, and the constructor raises for every image size and
  every library; with the reference library the exception is the TypeError of
  \<^verbatim>\<open>all_equals\<close>.
\<close>

theorem unet_construction_fails:
  "ImageDiffiT_init L (default_config s) \<noteq> Inr self
   \<and> hidden_size (default_config 64) mod num_heads (default_config 64) = 0
   \<and> hidden_channels (default_config 64) mod num_groups (default_config 64) = 0
   \<and> ImageDiffiT_init ref_lib (default_config 64) = Inl TypeError"
  using init_default_fails init_ref64 by (simp add: default_config_def)

text \<open>
  Claim C1. For every valid configuration with image size divisible by 8,
  \<^verbatim>\<open>ImageDiffiT.forward(x, t, y)\<close> completes and returns a tensor of the shape of
  \<open>x\<close>, with four distinct stacks applied in order. The code does not: whatever the
  libraries do and whatever the configuration and the input, constructing the model and
  calling \<^verbatim>\<open>forward\<close> never returns a tensor. The constructor assigns
  \<^verbatim>\<open>resBlock2\<close> three times and never \<^verbatim>\<open>resBlock3\<close>, which
  \<^verbatim>\<open>forward\<close> reads (line 290).
\<close>

theorem forward_never_returns:
  "bindE (ImageDiffiT_init L cfg) (\<lambda>self. ImageDiffiT_forward self rng x t y) \<noteq> Inr out"
  by (auto simp: bindE_eq_Inr dest: init_no_resBlock3 forward_needs_resBlock3)

text \<open>
  Claim C4. \<^verbatim>\<open>forward_with_cfg(x, t, y, w)\<close> returns a tensor of shape
  (2B, C, H, W), calling the U-Net once on the doubled inputs. The code does not return:
  on a constructed model the call of \<^verbatim>\<open>self.forward\<close> inside it raises, for the
  reason of claim C1.
\<close>

theorem forward_with_cfg_never_returns:
  "bindE (ImageDiffiT_init L cfg) (\<lambda>self. forward_with_cfg self rng x t y w) \<noteq> Inr out"
  by (auto simp: bindE_eq_Inr forward_with_cfg_def Let_def
      dest: init_no_resBlock3 forward_needs_resBlock3)






lemma init_head_is_default:
  "ImageDiffiT_init L cfg = Inr self \<Longrightarrow> \<exists>h. Head_default L = Inr h \<and> head self = Some h"
  by (auto simp: ImageDiffiT_init_def Let_def bindE_eq_Inr)








section \<open>Guidance\<close>




end
